theory Spec2Isabelle
  imports Main "HOL-Library.Word" "HOL-Library.Code_Target_Numeral"
begin

unbundle bit_operations_syntax

section \<open>Machine types and platform constants\<close>

text \<open>
  \<open>void*\<close> and \<open>size_t\<close> are 64-bit words (\<open>size >> 32\<close> in \<open>Create\<close> fixes the
  width). A C \<open>int\<close> that is only compared with zero (a descriptor, a system call's
  status) is an \<open>int\<close>; flag words are \<open>int\<close>s combined with \<open>OR\<close>.
\<close>

type_synonym addr = "64 word"
type_synonym size_t = "64 word"
type_synonym dword = "32 word"

definition nullptr :: addr where
  "nullptr = 0"

definition MAP_FAILED :: addr where
  \<comment> \<open>\<open>reinterpret_cast<void*>(-1)\<close>\<close>
  "MAP_FAILED = - 1"

text \<open>The values of \<open><sys/mman.h>\<close> and \<open><fcntl.h>\<close> on Linux.\<close>

definition PROT_NONE :: int where "PROT_NONE = 0"
definition PROT_READ :: int where "PROT_READ = 1"
definition PROT_WRITE :: int where "PROT_WRITE = 2"
definition PROT_EXEC :: int where "PROT_EXEC = 4"
definition MAP_SHARED :: int where "MAP_SHARED = 1"
definition MAP_PRIVATE :: int where "MAP_PRIVATE = 2"
definition MAP_FIXED :: int where "MAP_FIXED = 16"
definition MAP_ANON :: int where "MAP_ANON = 32"
definition O_RDONLY :: int where "O_RDONLY = 0"
definition O_RDWR :: int where "O_RDWR = 2"
definition O_CREAT :: int where "O_CREAT = 64"
definition O_EXCL :: int where "O_EXCL = 128"

text \<open>The values of the Windows headers.\<close>

definition INVALID_HANDLE_VALUE :: addr where "INVALID_HANDLE_VALUE = - 1"
definition PAGE_READONLY :: dword where "PAGE_READONLY = 2"
definition PAGE_READWRITE :: dword where "PAGE_READWRITE = 4"
definition PAGE_EXECUTE_READWRITE :: dword where "PAGE_EXECUTE_READWRITE = 64"
definition MEM_RESERVE :: dword where "MEM_RESERVE = 8192"
definition MEM_RELEASE :: dword where "MEM_RELEASE = 32768"
definition FILE_MAP_WRITE :: dword where "FILE_MAP_WRITE = 2"
definition FILE_MAP_READ :: dword where "FILE_MAP_READ = 4"
definition FILE_MAP_EXECUTE :: dword where "FILE_MAP_EXECUTE = 32"

definition Truncate32 :: "size_t \<Rightarrow> dword" where
  "Truncate32 x = ucast x"

section \<open>The operating system, as the code calls it\<close>

text \<open>
  The system calls are not code of the repository: each is a parameter, a function from
  its arguments and the state of the world \<open>'w\<close> to its return value and the world
  after the call. Calling one after the other is function composition, so the order of
  the calls is visible in every result.
\<close>

record 'w posix_api =
  getpid :: "'w \<Rightarrow> dword"
  shm_open :: "string \<Rightarrow> int \<Rightarrow> int \<Rightarrow> 'w \<Rightarrow> int \<times> 'w"
  shm_unlink :: "string \<Rightarrow> 'w \<Rightarrow> int \<times> 'w"
  ftruncate64 :: "int \<Rightarrow> int \<Rightarrow> 'w \<Rightarrow> int \<times> 'w"
  close :: "int \<Rightarrow> 'w \<Rightarrow> int \<times> 'w"
  mmap :: "addr \<Rightarrow> size_t \<Rightarrow> int \<Rightarrow> int \<Rightarrow> int \<Rightarrow> int \<Rightarrow> 'w \<Rightarrow> addr \<times> 'w"
  mmap64 :: "addr \<Rightarrow> size_t \<Rightarrow> int \<Rightarrow> int \<Rightarrow> int \<Rightarrow> int \<Rightarrow> 'w \<Rightarrow> addr \<times> 'w"
  munmap :: "addr \<Rightarrow> size_t \<Rightarrow> 'w \<Rightarrow> int \<times> 'w"
  msync :: "addr \<Rightarrow> size_t \<Rightarrow> int \<Rightarrow> 'w \<Rightarrow> int \<times> 'w"

record 'w win32_api =
  GetCurrentProcessId :: "'w \<Rightarrow> dword"
  CreateFileMappingA :: "addr \<Rightarrow> addr \<Rightarrow> dword \<Rightarrow> dword \<Rightarrow> dword \<Rightarrow> string \<Rightarrow> 'w \<Rightarrow> addr \<times> 'w"
  CloseHandle :: "addr \<Rightarrow> 'w \<Rightarrow> bool \<times> 'w"
  VirtualAlloc :: "addr \<Rightarrow> size_t \<Rightarrow> dword \<Rightarrow> dword \<Rightarrow> 'w \<Rightarrow> addr \<times> 'w"
  VirtualFree :: "addr \<Rightarrow> size_t \<Rightarrow> dword \<Rightarrow> 'w \<Rightarrow> bool \<times> 'w"
  MapViewOfFileEx :: "addr \<Rightarrow> dword \<Rightarrow> dword \<Rightarrow> dword \<Rightarrow> size_t \<Rightarrow> addr \<Rightarrow> 'w \<Rightarrow> addr \<times> 'w"
  FlushViewOfFile :: "addr \<Rightarrow> size_t \<Rightarrow> 'w \<Rightarrow> bool \<times> 'w"
  UnmapViewOfFile :: "addr \<Rightarrow> 'w \<Rightarrow> bool \<times> 'w"

text \<open>
  The build, as the chains \<open>#if defined(WIN32) / #elif defined(__linux__) /
  #elif defined(__ANDROID__) / #else\<close> select it: \<open>Win32\<close> when \<open>WIN32\<close> is defined,
  \<open>Linux\<close> when it is not and \<open>__linux__\<close> is, \<open>Android\<close> when only \<open>__ANDROID__\<close> is,
  \<open>Unsupported\<close> otherwise. Each build carries the system interface it links against.
\<close>

datatype 'w platform =
    Win32 "'w win32_api"
  | Linux "'w posix_api"
  | Android "'w posix_api"
  | Unsupported

section \<open>MemoryArena and View\<close>

record MemoryArena =
  m_file_handle :: addr
  m_shmem_fd :: int
  m_num_views :: size_t

text \<open>
  \<open>m_parent\<close> is a \<open>MemoryArena*\<close>: \<open>None\<close> is the null pointer, \<open>Some p\<close> points to
  the arena stored at \<open>p\<close>.
\<close>

record View =
  m_parent :: "nat option"
  m_base_pointer :: addr
  m_arena_offset :: size_t
  m_mapping_size :: size_t
  m_writable :: bool

type_synonym heap = "nat \<Rightarrow> MemoryArena"

text \<open>
  \<open>Panic\<close> and \<open>Assert\<close> are macros of \<open>common/assert.h\<close>. A failed one ends the run of
  the model; the state at that moment is kept in the result.
\<close>

datatype fatal = Panic string | AssertFailed string

text \<open>
  \<open>StringUtil::StdStringFromFormat("common_memory_arena_%zu_%u", size, pid)\<close>: both
  conversions print an unsigned number in decimal.
\<close>

function decimal :: "nat \<Rightarrow> string" where
  "decimal n = (if n < 10 then [''0123456789'' ! n]
                else decimal (n div 10) @ [''0123456789'' ! (n mod 10)])"
  by pat_completeness auto
termination
  by (relation "measure id") auto

declare decimal.simps [simp del]

definition StdStringFromFormat :: "size_t \<Rightarrow> dword \<Rightarrow> string" where
  "StdStringFromFormat sz pid =
     ''common_memory_arena_'' @ decimal (unat sz) @ ''_'' @ decimal (unat pid)"

subsection \<open>\<open>MemoryArena::~MemoryArena\<close>\<close>

definition MemoryArena_dtor :: "'w platform \<Rightarrow> MemoryArena \<Rightarrow> 'w \<Rightarrow> 'w" where
  "MemoryArena_dtor plat a w =
     (case plat of
        Win32 api \<Rightarrow>
          if m_file_handle a \<noteq> nullptr then snd (CloseHandle api (m_file_handle a) w) else w
      | Linux api \<Rightarrow>
          if m_shmem_fd a > 0 then snd (close api (m_shmem_fd a) w) else w
      | Android api \<Rightarrow> w
      | Unsupported \<Rightarrow> w)"

subsection \<open>\<open>MemoryArena::FindBaseAddressForMapping\<close>\<close>

definition FindBaseAddressForMapping :: "'w platform \<Rightarrow> size_t \<Rightarrow> 'w \<Rightarrow> addr \<times> 'w" where
  "FindBaseAddressForMapping plat sz w =
     (let (base_address, w') =
        (case plat of
           Win32 api \<Rightarrow>
             (let (b, w1) = VirtualAlloc api nullptr sz MEM_RESERVE PAGE_READWRITE w
              in if b \<noteq> nullptr then (b, snd (VirtualFree api b 0 MEM_RELEASE w1)) else (b, w1))
         | Linux api \<Rightarrow>
             (let (b, w1) = mmap api nullptr sz PROT_NONE (MAP_ANON OR MAP_PRIVATE) (- 1) 0 w
              in if b \<noteq> nullptr then (b, snd (munmap api b sz w1)) else (b, w1))
         | Android api \<Rightarrow>
             (let (b, w1) = mmap api nullptr sz PROT_NONE (MAP_ANON OR MAP_SHARED) (- 1) 0 w
              in if b \<noteq> nullptr then (b, snd (munmap api b sz w1)) else (b, w1))
         | Unsupported \<Rightarrow> (nullptr, w))
      in if base_address = nullptr then (nullptr, w') else (base_address, w'))"

subsection \<open>\<open>MemoryArena::Create\<close>\<close>

definition Create ::
  "'w platform \<Rightarrow> size_t \<Rightarrow> bool \<Rightarrow> bool \<Rightarrow> MemoryArena \<times> 'w \<Rightarrow> bool \<times> MemoryArena \<times> 'w" where
  "Create plat sz writable executable s =
     (case s of (a, w) \<Rightarrow>
        (case plat of
           Win32 api \<Rightarrow>
             (let file_mapping_name = StdStringFromFormat sz (GetCurrentProcessId api w);
                  protect = (if writable
                             then (if executable then PAGE_EXECUTE_READWRITE else PAGE_READWRITE)
                             else PAGE_READONLY);
                  (handle, w1) = CreateFileMappingA api INVALID_HANDLE_VALUE nullptr protect
                               (Truncate32 (drop_bit 32 sz)) (Truncate32 sz) file_mapping_name w;
                  a1 = a\<lparr>m_file_handle := handle\<rparr>
              in if m_file_handle a1 = nullptr then (False, a1, w1) else (True, a1, w1))
         | Linux api \<Rightarrow>
             (let file_mapping_name = StdStringFromFormat sz (getpid api w);
                  (fd, w1) = shm_open api file_mapping_name
                               (O_CREAT OR O_EXCL OR (if writable then O_RDWR else O_RDONLY)) 384 w;
                  a1 = a\<lparr>m_shmem_fd := fd\<rparr>
              in if m_shmem_fd a1 < 0 then (False, a1, w1)
                 else
                   (let (u, w2) = shm_unlink api file_mapping_name w1;
                        (t, w3) = ftruncate64 api (m_shmem_fd a1) (sint sz) w2
                    in if t < 0 then (False, a1, w3) else (True, a1, w3)))
         | Android api \<Rightarrow> (False, a, w)
         | Unsupported \<Rightarrow> (False, a, w)))"

subsection \<open>\<open>MemoryArena::CreateViewPtr\<close>\<close>

definition CreateViewPtr ::
  "'w platform \<Rightarrow> size_t \<Rightarrow> size_t \<Rightarrow> bool \<Rightarrow> bool \<Rightarrow> addr \<Rightarrow> MemoryArena \<times> 'w
     \<Rightarrow> addr \<times> MemoryArena \<times> 'w" where
  "CreateViewPtr plat offset sz writable executable fixed_address s =
     (case s of (a, w) \<Rightarrow>
        (case plat of
           Win32 api \<Rightarrow>
             (let desired_access = FILE_MAP_READ OR (if writable then FILE_MAP_WRITE else 0)
                                     OR (if executable then FILE_MAP_EXECUTE else 0);
                  (base_pointer, w1) = MapViewOfFileEx api (m_file_handle a) desired_access
                     (Truncate32 (drop_bit 32 offset)) (Truncate32 offset) sz fixed_address w
              in if base_pointer = nullptr then (nullptr, a, w1)
                 else (base_pointer, a\<lparr>m_num_views := m_num_views a + 1\<rparr>, w1))
         | Linux api \<Rightarrow>
             (let flags = (if fixed_address \<noteq> nullptr then MAP_SHARED OR MAP_FIXED else MAP_SHARED);
                  prot = PROT_READ OR (if writable then PROT_WRITE else 0)
                           OR (if executable then PROT_EXEC else 0);
                  (base_pointer, w1) = mmap64 api fixed_address sz prot flags (m_shmem_fd a)
                                         (sint offset) w
              in if base_pointer = MAP_FAILED then (nullptr, a, w1)
                 else (base_pointer, a\<lparr>m_num_views := m_num_views a + 1\<rparr>, w1))
         | Android api \<Rightarrow> (nullptr, a, w)
         | Unsupported \<Rightarrow> (nullptr, a, w)))"

subsection \<open>\<open>MemoryArena::FlushViewPtr\<close> and \<open>MemoryArena::ReleaseViewPtr\<close>\<close>

definition FlushViewPtr :: "'w platform \<Rightarrow> addr \<Rightarrow> size_t \<Rightarrow> 'w \<Rightarrow> bool \<times> 'w" where
  "FlushViewPtr plat address sz w =
     (case plat of
        Win32 api \<Rightarrow> FlushViewOfFile api address sz w
      | Linux api \<Rightarrow> (let (r, w1) = msync api address sz 0 w in (r \<ge> 0, w1))
      | Android api \<Rightarrow> (False, w)
      | Unsupported \<Rightarrow> (False, w))"

text \<open>
  \<open>fetch_sub\<close> subtracts first and returns the value it found; the assertion reads
  that value afterwards, so the arena of an \<open>AssertFailed\<close> result holds the counter
  as the subtraction left it.
\<close>

definition ReleaseViewPtr ::
  "'w platform \<Rightarrow> addr \<Rightarrow> size_t \<Rightarrow> MemoryArena \<times> 'w \<Rightarrow> (fatal + bool) \<times> MemoryArena \<times> 'w" where
  "ReleaseViewPtr plat address sz s =
     (case s of (a, w) \<Rightarrow>
        (let (result, w1) =
           (case plat of
              Win32 api \<Rightarrow> UnmapViewOfFile api address w
            | Linux api \<Rightarrow> (let (r, w1) = munmap api address sz w in (r \<ge> 0, w1))
            | Android api \<Rightarrow> (False, w)
            | Unsupported \<Rightarrow> (False, w))
         in if \<not> result then (Inr False, a, w1)
            else
              (let prev_count = m_num_views a;
                   a1 = a\<lparr>m_num_views := m_num_views a - 1\<rparr>
               in if prev_count > 0 then (Inr True, a1, w1)
                  else (Inl (AssertFailed ''prev_count > 0''), a1, w1))))"

subsection \<open>\<open>MemoryArena::View\<close>\<close>

definition View_ctor :: "nat option \<Rightarrow> addr \<Rightarrow> size_t \<Rightarrow> size_t \<Rightarrow> bool \<Rightarrow> View" where
  "View_ctor parent base_pointer arena_offset mapping_size writable =
     \<lparr>m_parent = parent, m_base_pointer = base_pointer, m_arena_offset = arena_offset,
      m_mapping_size = mapping_size, m_writable = writable\<rparr>"

text \<open>
  The move constructor \<open>View(View&& view)\<close> has member initialisers for \<open>m_parent\<close>,
  \<open>m_base_pointer\<close>, \<open>m_arena_offset\<close> and \<open>m_mapping_size\<close>, and none for
  \<open>m_writable\<close>. What the new object's \<open>m_writable\<close> then holds is decided by the class
  declaration in \<open>memory_arena.h\<close> (a default member initialiser, or nothing at all), which
  is not among the sources: it is the parameter \<open>uninit\<close>. The result is the new object
  and the source as the constructor leaves it.
\<close>

definition View_move :: "bool \<Rightarrow> View \<Rightarrow> View \<times> View" where
  "View_move uninit view =
     (\<lparr>m_parent = m_parent view, m_base_pointer = m_base_pointer view,
       m_arena_offset = m_arena_offset view, m_mapping_size = m_mapping_size view,
       m_writable = uninit\<rparr>,
      view\<lparr>m_parent := None, m_base_pointer := nullptr, m_arena_offset := 0,
           m_mapping_size := 0\<rparr>)"

definition View_dtor :: "'w platform \<Rightarrow> View \<Rightarrow> heap \<times> 'w \<Rightarrow> (fatal + unit) \<times> heap \<times> 'w" where
  "View_dtor plat v s =
     (case s of (h, w) \<Rightarrow>
        (case m_parent v of
           None \<Rightarrow> (Inr (), h, w)
         | Some p \<Rightarrow>
             (let (flushed, w1) =
                (if m_writable v then FlushViewPtr plat (m_base_pointer v) (m_mapping_size v) w
                 else (True, w))
              in if \<not> flushed then (Inl (Panic ''Failed to flush previously-created view''), h, w1)
                 else
                   (case ReleaseViewPtr plat (m_base_pointer v) (m_mapping_size v) (h p, w1) of
                      (Inl f, a1, w2) \<Rightarrow> (Inl f, h(p := a1), w2)
                    | (Inr False, a1, w2) \<Rightarrow>
                        (Inl (Panic ''Failed to unmap previously-created view''), h(p := a1), w2)
                    | (Inr True, a1, w2) \<Rightarrow> (Inr (), h(p := a1), w2)))))"

subsection \<open>\<open>MemoryArena::CreateView\<close>\<close>

text \<open>
  \<open>return View(this, base_pointer, offset, size, writable)\<close> initialises the returned
  \<open>std::optional<View>\<close> from a temporary \<open>View\<close>: the contained object is built by the
  move constructor, and the temporary, whose \<open>m_parent\<close> is then null, is destroyed
  without effect.
\<close>

definition CreateView ::
  "'w platform \<Rightarrow> bool \<Rightarrow> nat \<Rightarrow> size_t \<Rightarrow> size_t \<Rightarrow> bool \<Rightarrow> bool \<Rightarrow> addr \<Rightarrow> heap \<times> 'w
     \<Rightarrow> View option \<times> heap \<times> 'w" where
  "CreateView plat uninit this offset sz writable executable fixed_address s =
     (case s of (h, w) \<Rightarrow>
        (let (base_pointer, a1, w1) =
               CreateViewPtr plat offset sz writable executable fixed_address (h this, w)
         in if base_pointer = nullptr then (None, h(this := a1), w1)
            else (Some (fst (View_move uninit
                              (View_ctor (Some this) base_pointer offset sz writable))),
                  h(this := a1), w1)))"

section \<open>A reference kernel\<close>

text \<open>
  The concrete runs execute the code against a small kernel with the behaviour that the
  manual pages of the calls document: \<open>shm_open(3)\<close>, \<open>shm_unlink(3)\<close>,
  \<open>ftruncate(2)\<close>, \<open>close(2)\<close>, \<open>mmap(2)\<close>, \<open>munmap(2)\<close>, \<open>msync(2)\<close>. Its state is the
  table of names under which shared-memory objects are linked, the sizes of the objects,
  the table of open descriptors, the page table of the process, and a trace of the
  calls made. Every theorem that is stated for an arbitrary \<open>api\<close> or \<open>plat\<close> holds for
  every implementation of the interface, not only for this one.
\<close>

datatype syscall =
    Sys_shm_open string int int
  | Sys_shm_unlink string
  | Sys_ftruncate64 int int
  | Sys_close int
  | Sys_mmap addr size_t int int int int
  | Sys_munmap addr size_t
  | Sys_msync addr size_t int

datatype open_file = Terminal | ShmFile nat bool
  \<comment> \<open>a shared-memory object and whether the descriptor is open for writing\<close>

datatype backing = Anonymous | Shared nat

record kernel =
  k_pid :: dword
  k_nofile :: nat  \<comment> \<open>the limit on open descriptors\<close>
  k_names :: "(string \<times> nat) list"  \<comment> \<open>linked names, each with its object\<close>
  k_objects :: "nat list"  \<comment> \<open>the size in bytes of object 0, 1, ...\<close>
  k_fds :: "(int \<times> open_file) list"
  k_pages :: "nat \<Rightarrow> (backing \<times> nat) option"
    \<comment> \<open>page number to what backs the page and which page of it\<close>
  k_mmap_base :: nat
    \<comment> \<open>a mapping with no fixed address is placed just below this page\<close>
  k_trace :: "syscall list"

definition page_size :: nat where
  "page_size = 4096"

definition task_size_pages :: nat where
  \<comment> \<open>the user address space ends at \<open>0x7ffffffff000\<close>, one page short of 47 bits\<close>
  "task_size_pages = 2 ^ 35 - 1"

definition mmap_min_pages :: nat where
  \<comment> \<open>nothing is mapped below \<open>vm.mmap_min_addr\<close>, 65536\<close>
  "mmap_min_pages = 16"

definition pages_of :: "nat \<Rightarrow> nat" where
  "pages_of len = (len + (page_size - 1)) div page_size"

definition k_log :: "syscall \<Rightarrow> kernel \<Rightarrow> kernel" where
  "k_log c k = k\<lparr>k_trace := k_trace k @ [c]\<rparr>"

text \<open>The lowest descriptor that is not open; the second argument bounds the search.\<close>

fun lowest_unused :: "int list \<Rightarrow> int list \<Rightarrow> int \<Rightarrow> int" where
  "lowest_unused used [] i = i"
| "lowest_unused used (x # fuel) i =
     (if i \<in> set used then lowest_unused used fuel (i + 1) else i)"

definition k_shm_open :: "string \<Rightarrow> int \<Rightarrow> int \<Rightarrow> kernel \<Rightarrow> int \<times> kernel" where
  "k_shm_open name oflag mode k0 =
     (let k = k_log (Sys_shm_open name oflag mode) k0;
          fd = lowest_unused (map fst (k_fds k)) (map fst (k_fds k)) 0;
          wr = (oflag AND 3 = O_RDWR)
      in case map_of (k_names k) name of
           Some obj \<Rightarrow>
             if oflag AND O_CREAT \<noteq> 0 \<and> oflag AND O_EXCL \<noteq> 0 then (- 1, k)
             else if int (k_nofile k) \<le> fd then (- 1, k)
             else (fd, k\<lparr>k_fds := (fd, ShmFile obj wr) # k_fds k\<rparr>)
         | None \<Rightarrow>
             if oflag AND O_CREAT = 0 then (- 1, k)
             else if int (k_nofile k) \<le> fd then (- 1, k)
             else (fd, k\<lparr>k_names := (name, length (k_objects k)) # k_names k,
                         k_objects := k_objects k @ [0],
                         k_fds := (fd, ShmFile (length (k_objects k)) wr) # k_fds k\<rparr>))"

definition k_shm_unlink :: "string \<Rightarrow> kernel \<Rightarrow> int \<times> kernel" where
  "k_shm_unlink name k0 =
     (let k = k_log (Sys_shm_unlink name) k0
      in case map_of (k_names k) name of
           None \<Rightarrow> (- 1, k)
         | Some obj \<Rightarrow> (0, k\<lparr>k_names := filter (\<lambda>e. fst e \<noteq> name) (k_names k)\<rparr>))"

definition k_ftruncate64 :: "int \<Rightarrow> int \<Rightarrow> kernel \<Rightarrow> int \<times> kernel" where
  "k_ftruncate64 fd len k0 =
     (let k = k_log (Sys_ftruncate64 fd len) k0
      in case map_of (k_fds k) fd of
           None \<Rightarrow> (- 1, k)
         | Some Terminal \<Rightarrow> (- 1, k)
         | Some (ShmFile obj wr) \<Rightarrow>
             if wr \<and> 0 \<le> len then (0, k\<lparr>k_objects := (k_objects k)[obj := nat len]\<rparr>)
             else (- 1, k))"

definition k_close :: "int \<Rightarrow> kernel \<Rightarrow> int \<times> kernel" where
  "k_close fd k0 =
     (let k = k_log (Sys_close fd) k0
      in case map_of (k_fds k) fd of
           None \<Rightarrow> (- 1, k)
         | Some f \<Rightarrow> (0, k\<lparr>k_fds := filter (\<lambda>e. fst e \<noteq> fd) (k_fds k)\<rparr>))"

text \<open>
  \<open>mmap\<close>: the length must be positive, the offset a multiple of the page size, a fixed
  address page-aligned, and exactly one of \<open>MAP_SHARED\<close> and \<open>MAP_PRIVATE\<close> given
  (\<open>EINVAL\<close>). A fixed range must lie between \<open>vm.mmap_min_addr\<close> and the end of the user
  address space (\<open>EPERM\<close>, \<open>ENOMEM\<close>). A file mapping needs an open descriptor of a
  shared-memory object (\<open>EBADF\<close>, \<open>ENODEV\<close>), an offset and length that end below
  \<open>2^63\<close> (\<open>EOVERFLOW\<close>), and a descriptor open for writing when the mapping is shared
  and writable (\<open>EACCES\<close>). The offset and length are not compared with the size of the
  object. With \<open>MAP_FIXED\<close> the mapping is placed at the address given and replaces
  whatever the range held. Without it the kernel chooses the address: this one places
  the mapping just below everything it has placed so far and fails when no room is left
  there (\<open>ENOMEM\<close>); it does not hand out a range a second time. The code passes an
  address only together with \<open>MAP_FIXED\<close>, so a hint is not modelled.
\<close>

definition k_mmap :: "addr \<Rightarrow> size_t \<Rightarrow> int \<Rightarrow> int \<Rightarrow> int \<Rightarrow> int \<Rightarrow> kernel \<Rightarrow> addr \<times> kernel" where
  "k_mmap address len prot flags fd off k0 =
     (let k = k_log (Sys_mmap address len prot flags fd off) k0;
          n = pages_of (unat len);
          fixed = (flags AND MAP_FIXED \<noteq> 0);
          base = (if fixed then unat address div page_size else k_mmap_base k - n);
          place = (\<lambda>b first.
            (word_of_int (int (base * page_size)),
             k\<lparr>k_pages := (\<lambda>p. if base \<le> p \<and> p < base + n
                                 then Some (b, first + (p - base)) else k_pages k p),
               k_mmap_base := min (k_mmap_base k) base\<rparr>))
      in if unat len = 0 \<or> off < 0 \<or> off mod int page_size \<noteq> 0
            \<or> (fixed \<and> unat address mod page_size \<noteq> 0)
            \<or> ((flags AND MAP_SHARED \<noteq> 0) = (flags AND MAP_PRIVATE \<noteq> 0))
         then (MAP_FAILED, k)
         else if fixed \<and> (base < mmap_min_pages \<or> task_size_pages < base + n)
         then (MAP_FAILED, k)
         else if k_mmap_base k < mmap_min_pages + n \<and> \<not> fixed then (MAP_FAILED, k)
         else if flags AND MAP_ANON \<noteq> 0 then place Anonymous 0
         else (case map_of (k_fds k) fd of
                 None \<Rightarrow> (MAP_FAILED, k)
               | Some Terminal \<Rightarrow> (MAP_FAILED, k)
               | Some (ShmFile obj wr) \<Rightarrow>
                   if 2 ^ 63 \<le> off + int (n * page_size) then (MAP_FAILED, k)
                   else if flags AND MAP_SHARED \<noteq> 0 \<and> prot AND PROT_WRITE \<noteq> 0 \<and> \<not> wr
                   then (MAP_FAILED, k)
                   else place (Shared obj) (nat off div page_size)))"

text \<open>
  \<open>munmap\<close> wants a page-aligned address, a positive length and a range inside the user
  address space (\<open>EINVAL\<close>); pages of the range that are not mapped are no error.
  \<open>msync\<close> wants a page-aligned address (\<open>EINVAL\<close>) and every page of the range mapped
  (\<open>ENOMEM\<close>).
\<close>

definition k_munmap :: "addr \<Rightarrow> size_t \<Rightarrow> kernel \<Rightarrow> int \<times> kernel" where
  "k_munmap address len k0 =
     (let k = k_log (Sys_munmap address len) k0;
          base = unat address div page_size;
          n = pages_of (unat len)
      in if unat len = 0 \<or> unat address mod page_size \<noteq> 0 \<or> task_size_pages < base + n
         then (- 1, k)
         else (0, k\<lparr>k_pages := (\<lambda>p. if base \<le> p \<and> p < base + n then None else k_pages k p)\<rparr>))"

definition k_msync :: "addr \<Rightarrow> size_t \<Rightarrow> int \<Rightarrow> kernel \<Rightarrow> int \<times> kernel" where
  "k_msync address len flags k0 =
     (let k = k_log (Sys_msync address len flags) k0;
          base = unat address div page_size;
          n = pages_of (unat len)
      in if unat address mod page_size \<noteq> 0 then (- 1, k)
         else if task_size_pages < base + n then (- 1, k)
         else if list_all (\<lambda>p. k_pages k p \<noteq> None) [base..<base + n] then (0, k)
         else (- 1, k))"

definition linux_kernel :: "kernel posix_api" where
  "linux_kernel =
     \<lparr>getpid = k_pid, shm_open = k_shm_open, shm_unlink = k_shm_unlink,
      ftruncate64 = k_ftruncate64, close = k_close, mmap = k_mmap, mmap64 = k_mmap,
      munmap = k_munmap, msync = k_msync\<rparr>"

text \<open>
  A process as a shell starts it: standard input, output and error open on the
  terminal, and the first mapping of one page that the kernel places itself goes to
  \<open>0x7f0000000000\<close>.
\<close>

definition boot :: kernel where
  "boot =
     \<lparr>k_pid = 1234, k_nofile = 1024, k_names = [], k_objects = [],
      k_fds = [(0, Terminal), (1, Terminal), (2, Terminal)],
      k_pages = (\<lambda>p. None), k_mmap_base = 34091302913, k_trace = []\<rparr>"

definition arena0 :: MemoryArena where
  \<comment> \<open>an arena before \<open>Create\<close>\<close>
  "arena0 = \<lparr>m_file_handle = nullptr, m_shmem_fd = - 1, m_num_views = 0\<rparr>"

subsection \<open>A recorder for the Windows interface\<close>

text \<open>
  The world is the list of calls made so far; \<open>answer\<close> gives each call its return value
  (for a \<open>BOOL\<close>, nonzero is true).
\<close>

datatype win32_call =
    Call_CreateFileMappingA addr addr dword dword dword string
  | Call_CloseHandle addr
  | Call_VirtualAlloc addr size_t dword dword
  | Call_VirtualFree addr size_t dword
  | Call_MapViewOfFileEx addr dword dword dword size_t addr
  | Call_FlushViewOfFile addr size_t
  | Call_UnmapViewOfFile addr

definition win32_recorder :: "dword \<Rightarrow> (win32_call \<Rightarrow> addr) \<Rightarrow> (win32_call list) win32_api" where
  "win32_recorder pid answer =
     \<lparr>GetCurrentProcessId = (\<lambda>w. pid),
      CreateFileMappingA = (\<lambda>f s p hi lo n w.
        (answer (Call_CreateFileMappingA f s p hi lo n), w @ [Call_CreateFileMappingA f s p hi lo n])),
      CloseHandle = (\<lambda>h w. (answer (Call_CloseHandle h) \<noteq> 0, w @ [Call_CloseHandle h])),
      VirtualAlloc = (\<lambda>a n t p w. (answer (Call_VirtualAlloc a n t p), w @ [Call_VirtualAlloc a n t p])),
      VirtualFree = (\<lambda>a n t w. (answer (Call_VirtualFree a n t) \<noteq> 0, w @ [Call_VirtualFree a n t])),
      MapViewOfFileEx = (\<lambda>h d hi lo n a w.
        (answer (Call_MapViewOfFileEx h d hi lo n a), w @ [Call_MapViewOfFileEx h d hi lo n a])),
      FlushViewOfFile = (\<lambda>a n w. (answer (Call_FlushViewOfFile a n) \<noteq> 0, w @ [Call_FlushViewOfFile a n])),
      UnmapViewOfFile = (\<lambda>a w. (answer (Call_UnmapViewOfFile a) \<noteq> 0, w @ [Call_UnmapViewOfFile a]))\<rparr>"

section \<open>The platform call behind each operation\<close>

text \<open>
  The statements below name the one system call that an operation makes and the test
  the code applies to its return value: \<open>map_step\<close> for \<open>CreateViewPtr\<close> (the address
  when the platform reports success), \<open>flush_step\<close> for \<open>FlushViewPtr\<close>, \<open>unmap_step\<close>
  for \<open>ReleaseViewPtr\<close>.
\<close>

definition map_step ::
  "'w platform \<Rightarrow> MemoryArena \<Rightarrow> size_t \<Rightarrow> size_t \<Rightarrow> bool \<Rightarrow> bool \<Rightarrow> addr \<Rightarrow> 'w
     \<Rightarrow> addr option \<times> 'w" where
  "map_step plat a offset sz writable executable fixed_address w =
     (case plat of
        Win32 api \<Rightarrow>
          (let r = MapViewOfFileEx api (m_file_handle a)
                     (FILE_MAP_READ OR (if writable then FILE_MAP_WRITE else 0)
                        OR (if executable then FILE_MAP_EXECUTE else 0))
                     (Truncate32 (drop_bit 32 offset)) (Truncate32 offset) sz fixed_address w
           in (if fst r = nullptr then None else Some (fst r), snd r))
      | Linux api \<Rightarrow>
          (let r = mmap64 api fixed_address sz
                     (PROT_READ OR (if writable then PROT_WRITE else 0)
                        OR (if executable then PROT_EXEC else 0))
                     (if fixed_address \<noteq> nullptr then MAP_SHARED OR MAP_FIXED else MAP_SHARED)
                     (m_shmem_fd a) (sint offset) w
           in (if fst r = MAP_FAILED then None else Some (fst r), snd r))
      | Android api \<Rightarrow> (None, w)
      | Unsupported \<Rightarrow> (None, w))"

definition flush_step :: "'w platform \<Rightarrow> addr \<Rightarrow> size_t \<Rightarrow> 'w \<Rightarrow> bool \<times> 'w" where
  "flush_step plat address sz w =
     (case plat of
        Win32 api \<Rightarrow> FlushViewOfFile api address sz w
      | Linux api \<Rightarrow> (0 \<le> fst (msync api address sz 0 w), snd (msync api address sz 0 w))
      | Android api \<Rightarrow> (False, w)
      | Unsupported \<Rightarrow> (False, w))"

definition unmap_step :: "'w platform \<Rightarrow> addr \<Rightarrow> size_t \<Rightarrow> 'w \<Rightarrow> bool \<times> 'w" where
  "unmap_step plat address sz w =
     (case plat of
        Win32 api \<Rightarrow> UnmapViewOfFile api address w
      | Linux api \<Rightarrow> (0 \<le> fst (munmap api address sz w), snd (munmap api address sz w))
      | Android api \<Rightarrow> (False, w)
      | Unsupported \<Rightarrow> (False, w))"

text \<open>
  A client of one arena: a sequence of \<open>CreateViewPtr\<close> and \<open>ReleaseViewPtr\<close> calls. The
  run counts the mappings the platform established and the ones it removed, and stops at
  a failed assertion.
\<close>

datatype view_call =
    Call_CreateViewPtr size_t size_t bool bool addr
  | Call_ReleaseViewPtr addr size_t

fun run_from ::
  "'w platform \<Rightarrow> view_call list \<Rightarrow> nat \<times> nat \<Rightarrow> MemoryArena \<times> 'w
     \<Rightarrow> (fatal + nat \<times> nat) \<times> MemoryArena \<times> 'w" where
  "run_from plat [] c s = (Inr c, s)"
| "run_from plat (Call_CreateViewPtr offset sz writable executable fixed_address # cs) c s =
     run_from plat cs
       (if fst (map_step plat (fst s) offset sz writable executable fixed_address (snd s)) = None
        then c else (fst c + 1, snd c))
       (snd (CreateViewPtr plat offset sz writable executable fixed_address s))"
| "run_from plat (Call_ReleaseViewPtr address sz # cs) c s =
     (case ReleaseViewPtr plat address sz s of
        (Inl f, s1) \<Rightarrow> (Inl f, s1)
      | (Inr released, s1) \<Rightarrow>
          run_from plat cs (if released then (fst c, snd c + 1) else c) s1)"

definition run_views ::
  "'w platform \<Rightarrow> view_call list \<Rightarrow> MemoryArena \<times> 'w \<Rightarrow> (fatal + nat \<times> nat) \<times> MemoryArena \<times> 'w" where
  "run_views plat cs s = run_from plat cs (0, 0) s"

text \<open>
  When the platform refuses the allocation that \<open>Create\<close> asks for: the file mapping on
  Windows, the shared-memory object or its size on Linux.
\<close>

definition allocation_refused :: "'w platform \<Rightarrow> size_t \<Rightarrow> bool \<Rightarrow> bool \<Rightarrow> 'w \<Rightarrow> bool" where
  "allocation_refused plat sz writable executable w =
     (case plat of
        Win32 api \<Rightarrow>
          fst (CreateFileMappingA api INVALID_HANDLE_VALUE nullptr
                 (if writable then (if executable then PAGE_EXECUTE_READWRITE else PAGE_READWRITE)
                  else PAGE_READONLY)
                 (Truncate32 (drop_bit 32 sz)) (Truncate32 sz)
                 (StdStringFromFormat sz (GetCurrentProcessId api w)) w) = nullptr
      | Linux api \<Rightarrow>
          (let name = StdStringFromFormat sz (getpid api w);
               opened = shm_open api name
                          (O_CREAT OR O_EXCL OR (if writable then O_RDWR else O_RDONLY)) 384 w
           in fst opened < 0
              \<or> fst (ftruncate64 api (fst opened) (sint sz)
                       (snd (shm_unlink api name (snd opened)))) < 0)
      | Android api \<Rightarrow> False
      | Unsupported \<Rightarrow> False)"

section \<open>Example runs\<close>

text \<open>
  A freshly started process creates a writable arena of 4096 bytes, then maps all of it
  at an address the kernel chooses.
\<close>

definition example_arena :: "MemoryArena \<times> kernel" where
  "example_arena = snd (Create (Linux linux_kernel) 4096 True False (arena0, boot))"

definition example_view :: "addr \<times> MemoryArena \<times> kernel" where
  "example_view = CreateViewPtr (Linux linux_kernel) 0 4096 True False nullptr example_arena"

text \<open>The arena is stored at address 0 of the heap; the view object refers to it there.\<close>

definition example_heap :: heap where
  "example_heap = (\<lambda>p. fst (snd example_view))"

definition example_View :: View where
  "example_View = View_ctor (Some 0) (fst example_view) 0 4096 True"

text \<open>A writable view object whose address holds no mapping (any more).\<close>

definition example_stale_View :: View where
  "example_stale_View = View_ctor (Some 0) 0x7f0000001000 0 4096 True"

text \<open>
  The same process with one page of anonymous memory of its own (a buffer, say) mapped at
  \<open>0x7f0000000000\<close> after the arena was created.
\<close>

definition example_occupied :: "MemoryArena \<times> kernel" where
  "example_occupied =
     (fst example_arena,
      snd (k_mmap nullptr 4096 (PROT_READ OR PROT_WRITE) (MAP_PRIVATE OR MAP_ANON) (- 1) 0
             (snd example_arena)))"

text \<open>A process started with its standard input closed: descriptor 0 is free.\<close>

definition boot_stdin_closed :: kernel where
  "boot_stdin_closed = boot\<lparr>k_fds := [(1, Terminal), (2, Terminal)]\<rparr>"

text \<open>
  A process that finds its name taken: an object is linked under the name that
  \<open>Create\<close> will ask for.
\<close>

definition boot_name_taken :: kernel where
  "boot_name_taken =
     boot\<lparr>k_names := [(''common_memory_arena_4096_1234'', 0)], k_objects := [4096]\<rparr>"

text \<open>A process that has used up its descriptors.\<close>

definition boot_no_descriptors :: kernel where
  "boot_no_descriptors = boot\<lparr>k_nofile := 3\<rparr>"

section \<open>Properties\<close>

subsection \<open>Unfolding lemmas\<close>

lemmas flag_defs =
  PROT_NONE_def PROT_READ_def PROT_WRITE_def PROT_EXEC_def MAP_SHARED_def MAP_PRIVATE_def
  MAP_FIXED_def MAP_ANON_def O_RDONLY_def O_RDWR_def O_CREAT_def O_EXCL_def nullptr_def
  MAP_FAILED_def

lemmas kernel_defs =
  linux_kernel_def k_shm_open_def k_shm_unlink_def k_ftruncate64_def k_close_def k_mmap_def
  k_munmap_def k_msync_def k_log_def pages_of_def page_size_def task_size_pages_def
  mmap_min_pages_def
  Let_def

lemma StdStringFromFormat_example:
  "StdStringFromFormat 4096 1234 = ''common_memory_arena_4096_1234''"
  by (simp add: StdStringFromFormat_def decimal.simps)

lemma Create_example:
  "Create (Linux linux_kernel) 4096 True False (arena0, boot) =
     (True, arena0\<lparr>m_shmem_fd := 3\<rparr>,
      boot\<lparr>k_names := [], k_objects := [4096],
           k_fds := [(3, ShmFile 0 True), (0, Terminal), (1, Terminal), (2, Terminal)],
           k_trace := [Sys_shm_open ''common_memory_arena_4096_1234'' 194 384,
                       Sys_shm_unlink ''common_memory_arena_4096_1234'',
                       Sys_ftruncate64 3 4096]\<rparr>)"
  by (simp add: Create_def kernel_defs flag_defs StdStringFromFormat_example boot_def arena0_def)

lemma example_view_eval:
  "fst example_view = 0x7f0000000000"
  "m_num_views (fst (snd example_view)) = 1"
  "m_shmem_fd (fst (snd example_view)) = 3"
  "k_pages (snd (snd example_view)) 34091302912 = Some (Shared 0, 0)"
  "k_trace (snd (snd example_view)) =
     [Sys_shm_open ''common_memory_arena_4096_1234'' 194 384,
      Sys_shm_unlink ''common_memory_arena_4096_1234'',
      Sys_ftruncate64 3 4096,
      Sys_mmap 0 4096 3 1 3 0]"
  unfolding example_view_def example_arena_def Create_example snd_conv
  by (simp_all add: CreateViewPtr_def kernel_defs flag_defs boot_def arena0_def)

lemma ReleaseViewPtr_unfold:
  "ReleaseViewPtr plat address sz (a, w) =
     (if \<not> fst (unmap_step plat address sz w)
      then (Inr False, a, snd (unmap_step plat address sz w))
      else if 0 < m_num_views a
        then (Inr True, a\<lparr>m_num_views := m_num_views a - 1\<rparr>,
              snd (unmap_step plat address sz w))
        else (Inl (AssertFailed ''prev_count > 0''), a\<lparr>m_num_views := m_num_views a - 1\<rparr>,
              snd (unmap_step plat address sz w)))"
  by (cases plat) (simp_all add: ReleaseViewPtr_def unmap_step_def Let_def split: prod.splits)

lemma CreateViewPtr_unfold:
  "CreateViewPtr plat offset sz writable executable fixed_address (a, w) =
     (case fst (map_step plat a offset sz writable executable fixed_address w) of
        None \<Rightarrow> (nullptr, a, snd (map_step plat a offset sz writable executable fixed_address w))
      | Some bp \<Rightarrow> (bp, a\<lparr>m_num_views := m_num_views a + 1\<rparr>,
                    snd (map_step plat a offset sz writable executable fixed_address w)))"
  by (cases plat) (simp_all add: CreateViewPtr_def map_step_def Let_def split: prod.splits)

lemma word_pred_unat:
  fixes c :: size_t
  assumes "0 < c"
  shows "0 < unat c \<and> unat (c - 1) = unat c - 1"
  using assms by (simp add: unat_minus_one word_greater_zero_iff unat_gt_0)

subsection \<open>The counter in \<open>ReleaseViewPtr\<close>\<close>

lemma example_occupied_release:
  "m_num_views (fst example_occupied) = 0"
  "fst (ReleaseViewPtr (Linux linux_kernel) 0x7f0000000000 4096 example_occupied)
     = Inl (AssertFailed ''prev_count > 0'')"
  "m_num_views (fst (snd (ReleaseViewPtr (Linux linux_kernel) 0x7f0000000000 4096
                             example_occupied))) = 0xffffffffffffffff"
  "k_pages (snd (snd (ReleaseViewPtr (Linux linux_kernel) 0x7f0000000000 4096
                        example_occupied))) 34091302912 = None"
  unfolding example_occupied_def example_arena_def Create_example snd_conv fst_conv
  by (simp_all add: ReleaseViewPtr_def kernel_defs flag_defs boot_def arena0_def)

text \<open>
  C10 (as stated, refuted). Nothing is asserted before the subtraction. The process of
  the example run holds a page of its own at \<open>0x7f0000000000\<close> and the arena has no live
  view. \<open>ReleaseViewPtr\<close> on that page unmaps it, \<open>fetch_sub\<close> takes the counter from 0
  to \<open>0xffffffffffffffff\<close>, and only then the assertion \<open>prev_count > 0\<close> fails.
\<close>

theorem ReleaseViewPtr_wraps_counterexample:
  "m_num_views (fst example_occupied) = 0
   \<and> fst (ReleaseViewPtr (Linux linux_kernel) 0x7f0000000000 4096 example_occupied)
       = Inl (AssertFailed ''prev_count > 0'')
   \<and> m_num_views (fst (snd (ReleaseViewPtr (Linux linux_kernel) 0x7f0000000000 4096
                               example_occupied))) = 0xffffffffffffffff
   \<and> k_pages (snd (snd (ReleaseViewPtr (Linux linux_kernel) 0x7f0000000000 4096
                          example_occupied))) 34091302912 = None"
  by (intro conjI example_occupied_release)

text \<open>
  C10 (amended). When the unmap call fails, \<open>ReleaseViewPtr\<close> returns false and leaves
  the arena as it was; the counter changes only after a successful unmap. After a
  successful unmap the counter is decremented first and the value found before the
  subtraction is asserted positive afterwards: when it was positive the function returns
  true with the counter one less; when it was zero the counter has wrapped to
  \<open>2^64 - 1\<close> and the assertion \<open>prev_count > 0\<close> fails. A return, true or false, never
  comes with a counter that reads higher than before.
\<close>

theorem ReleaseViewPtr_counter_cases:
  assumes "ReleaseViewPtr plat address sz (a, w) = (r, a', w')"
  shows "w' = snd (unmap_step plat address sz w)
       \<and> (\<not> fst (unmap_step plat address sz w) \<longrightarrow> r = Inr False \<and> a' = a)
       \<and> (m_num_views a' \<noteq> m_num_views a \<longrightarrow> fst (unmap_step plat address sz w))
       \<and> (fst (unmap_step plat address sz w) \<and> 0 < m_num_views a \<longrightarrow>
            r = Inr True \<and> a' = a\<lparr>m_num_views := m_num_views a - 1\<rparr>
            \<and> unat (m_num_views a') = unat (m_num_views a) - 1)
       \<and> (fst (unmap_step plat address sz w) \<and> m_num_views a = 0 \<longrightarrow>
            r = Inl (AssertFailed ''prev_count > 0'') \<and> m_num_views a' = - 1
            \<and> unat (m_num_views a') = 2 ^ 64 - 1)
       \<and> (r = Inr True \<longrightarrow> 0 < unat (m_num_views a)
             \<and> unat (m_num_views a') = unat (m_num_views a) - 1)
       \<and> (unat (m_num_views a) < unat (m_num_views a')
             \<longrightarrow> r = Inl (AssertFailed ''prev_count > 0''))"
proof -
  have wrapped: "unat (- 1 :: size_t) = 2 ^ 64 - 1"
    by (simp add: unsigned_minus_1_eq_mask mask_eq_exp_minus_1)
  show ?thesis
    using assms word_pred_unat [of "m_num_views a"] wrapped
    by (auto simp: ReleaseViewPtr_unfold split: if_splits)
qed

theorem ReleaseViewPtr_counter_cases_witness:
  "fst (ReleaseViewPtr (Linux linux_kernel) 0x7f0000000000 4096 (snd example_view)) = Inr True
   \<and> unat (m_num_views (fst (snd example_view))) = 1
   \<and> unat (m_num_views (fst (snd
         (ReleaseViewPtr (Linux linux_kernel) 0x7f0000000000 4096 (snd example_view))))) = 0
   \<and> \<not> fst (unmap_step (Linux linux_kernel) 0x7f0000000001 4096 (snd (snd example_view)))
   \<and> fst (ReleaseViewPtr (Linux linux_kernel) 0x7f0000000001 4096 (snd example_view)) = Inr False
   \<and> fst (snd (ReleaseViewPtr (Linux linux_kernel) 0x7f0000000001 4096 (snd example_view)))
       = fst (snd example_view)"
proof -
  let ?ok = "ReleaseViewPtr (Linux linux_kernel) 0x7f0000000000 4096 (snd example_view)"
  let ?bad = "ReleaseViewPtr (Linux linux_kernel) 0x7f0000000001 4096 (snd example_view)"
  have ok: "fst ?ok = Inr True"
    unfolding example_view_def example_arena_def Create_example snd_conv
    by (simp add: ReleaseViewPtr_def CreateViewPtr_def kernel_defs flag_defs boot_def arena0_def)
  have bad: "\<not> fst (unmap_step (Linux linux_kernel) 0x7f0000000001 4096 (snd (snd example_view)))"
    by (simp add: unmap_step_def kernel_defs)
  have run_ok: "ReleaseViewPtr (Linux linux_kernel) 0x7f0000000000 4096
                  (fst (snd example_view), snd (snd example_view))
                = (fst ?ok, fst (snd ?ok), snd (snd ?ok))"
    by simp
  have run_bad: "ReleaseViewPtr (Linux linux_kernel) 0x7f0000000001 4096
                  (fst (snd example_view), snd (snd example_view))
                = (fst ?bad, fst (snd ?bad), snd (snd ?bad))"
    by simp
  have one: "unat (m_num_views (fst (snd example_view))) = 1"
    by (simp add: example_view_eval(2))
  from ReleaseViewPtr_counter_cases [OF run_ok] ok one
  have dec: "unat (m_num_views (fst (snd ?ok))) = 0"
    by simp
  from ReleaseViewPtr_counter_cases [OF run_bad] bad
  have same: "fst ?bad = Inr False" "fst (snd ?bad) = fst (snd example_view)"
    by simp_all
  show ?thesis
    by (intro conjI ok one dec bad same)
qed

subsection \<open>Releasing a view\<close>

lemma FlushViewPtr_unfold:
  "FlushViewPtr plat address sz w = flush_step plat address sz w"
  by (cases plat) (simp_all add: FlushViewPtr_def flush_step_def Let_def case_prod_beta)

lemma View_dtor_unfold:
  assumes "m_parent v = Some p"
  shows "View_dtor plat v (h, w) =
     (let fl = flush_step plat (m_base_pointer v) (m_mapping_size v) w;
          w1 = (if m_writable v then snd fl else w);
          un = unmap_step plat (m_base_pointer v) (m_mapping_size v) w1
      in if m_writable v \<and> \<not> fst fl
         then (Inl (Panic ''Failed to flush previously-created view''), h, snd fl)
         else if \<not> fst un
         then (Inl (Panic ''Failed to unmap previously-created view''), h, snd un)
         else if 0 < m_num_views (h p)
         then (Inr (), h(p := (h p)\<lparr>m_num_views := m_num_views (h p) - 1\<rparr>), snd un)
         else (Inl (AssertFailed ''prev_count > 0''),
               h(p := (h p)\<lparr>m_num_views := m_num_views (h p) - 1\<rparr>), snd un))"
  using assms
  by (cases "m_writable v")
     (simp_all add: View_dtor_def FlushViewPtr_unfold ReleaseViewPtr_unfold Let_def
        case_prod_beta)

text \<open>
  C5. The destructor of a view that still has its parent calls the platform's flush
  first when the view is writable, and the platform's unmap in the world the flush left.
  A flush that fails ends the run with the panic \<open>Failed to flush previously-created
  view\<close> before any unmap is tried; an unmap that fails ends it with \<open>Failed to unmap
  previously-created view\<close>; neither is returned as an error. When both calls succeed
  and the parent counts a live view, the destructor returns, the mapping is gone and the
  counter is one less; it returns in no other case.
\<close>

theorem View_dtor_flush_then_unmap:
  assumes "m_parent v = Some p" and "View_dtor plat v (h, w) = (r, h', w')"
  shows "let fl = flush_step plat (m_base_pointer v) (m_mapping_size v) w;
             w1 = (if m_writable v then snd fl else w);
             un = unmap_step plat (m_base_pointer v) (m_mapping_size v) w1
         in (m_writable v \<and> \<not> fst fl \<longrightarrow>
               r = Inl (Panic ''Failed to flush previously-created view'') \<and> h' = h \<and> w' = snd fl)
          \<and> ((fst fl \<or> \<not> m_writable v) \<and> \<not> fst un \<longrightarrow>
               r = Inl (Panic ''Failed to unmap previously-created view'') \<and> h' = h
               \<and> w' = snd un)
          \<and> ((fst fl \<or> \<not> m_writable v) \<and> fst un \<and> 0 < m_num_views (h p) \<longrightarrow>
               r = Inr () \<and> w' = snd un
               \<and> h' = h(p := (h p)\<lparr>m_num_views := m_num_views (h p) - 1\<rparr>))
          \<and> ((fst fl \<or> \<not> m_writable v) \<and> fst un \<and> m_num_views (h p) = 0 \<longrightarrow>
               r = Inl (AssertFailed ''prev_count > 0'') \<and> w' = snd un)
          \<and> (r = Inr () \<longrightarrow> (m_writable v \<longrightarrow> fst fl) \<and> fst un \<and> w' = snd un
                \<and> m_num_views (h' p) = m_num_views (h p) - 1)"
  using assms(2) unfolding View_dtor_unfold [OF assms(1)] Let_def
  by (auto split: if_splits simp: word_greater_zero_iff)

lemma example_View_dtor:
  "fst (View_dtor (Linux linux_kernel) example_View (example_heap, snd (snd example_view)))
     = Inr ()"
  "k_trace (snd (snd (View_dtor (Linux linux_kernel) example_View
                        (example_heap, snd (snd example_view)))))
     = k_trace (snd (snd example_view))
         @ [Sys_msync 0x7f0000000000 4096 0, Sys_munmap 0x7f0000000000 4096]"
  "k_pages (snd (snd (View_dtor (Linux linux_kernel) example_View
                        (example_heap, snd (snd example_view))))) 34091302912 = None"
  unfolding example_View_def example_heap_def example_view_def example_arena_def
    Create_example snd_conv
  by (simp_all add: View_dtor_def View_ctor_def FlushViewPtr_def ReleaseViewPtr_def
        CreateViewPtr_def kernel_defs flag_defs boot_def arena0_def)

lemma example_stale_View_dtor:
  "\<not> fst (flush_step (Linux linux_kernel) 0x7f0000001000 4096 (snd (snd example_view)))"
  "k_trace (snd (flush_step (Linux linux_kernel) 0x7f0000001000 4096 (snd (snd example_view))))
     = k_trace (snd (snd example_view)) @ [Sys_msync 0x7f0000001000 4096 0]"
  unfolding example_view_def example_arena_def Create_example snd_conv
  by (simp_all add: flush_step_def CreateViewPtr_def kernel_defs flag_defs boot_def arena0_def)

theorem View_dtor_flush_then_unmap_witness:
  "m_parent example_View = Some 0
   \<and> m_writable example_View
   \<and> fst (flush_step (Linux linux_kernel) 0x7f0000000000 4096 (snd (snd example_view)))
   \<and> 0 < m_num_views (example_heap 0)
   \<and> fst (View_dtor (Linux linux_kernel) example_View (example_heap, snd (snd example_view)))
       = Inr ()
   \<and> k_trace (snd (snd (View_dtor (Linux linux_kernel) example_View
                          (example_heap, snd (snd example_view)))))
       = k_trace (snd (snd example_view))
           @ [Sys_msync 0x7f0000000000 4096 0, Sys_munmap 0x7f0000000000 4096]
   \<and> k_pages (snd (snd (View_dtor (Linux linux_kernel) example_View
                          (example_heap, snd (snd example_view))))) 34091302912 = None
   \<and> m_num_views (fst (snd (View_dtor (Linux linux_kernel) example_View
                               (example_heap, snd (snd example_view)))) 0) = 0
   \<and> m_parent example_stale_View = Some 0
   \<and> m_writable example_stale_View
   \<and> \<not> fst (flush_step (Linux linux_kernel) 0x7f0000001000 4096 (snd (snd example_view)))
   \<and> fst (View_dtor (Linux linux_kernel) example_stale_View
             (example_heap, snd (snd example_view)))
       = Inl (Panic ''Failed to flush previously-created view'')
   \<and> k_trace (snd (snd (View_dtor (Linux linux_kernel) example_stale_View
                          (example_heap, snd (snd example_view)))))
       = k_trace (snd (snd example_view)) @ [Sys_msync 0x7f0000001000 4096 0]"
proof -
  let ?d = "View_dtor (Linux linux_kernel) example_View (example_heap, snd (snd example_view))"
  let ?s = "View_dtor (Linux linux_kernel) example_stale_View
              (example_heap, snd (snd example_view))"
  have v: "m_parent example_View = Some 0" "m_writable example_View"
    "m_base_pointer example_View = 0x7f0000000000" "m_mapping_size example_View = 4096"
    by (simp_all add: example_View_def View_ctor_def example_view_eval)
  have sv: "m_parent example_stale_View = Some 0" "m_writable example_stale_View"
    "m_base_pointer example_stale_View = 0x7f0000001000"
    "m_mapping_size example_stale_View = 4096"
    by (simp_all add: example_stale_View_def View_ctor_def)
  have run: "?d = (fst ?d, fst (snd ?d), snd (snd ?d))"
    and stale: "?s = (fst ?s, fst (snd ?s), snd (snd ?s))"
    by simp_all
  have fl: "fst (flush_step (Linux linux_kernel) 0x7f0000000000 4096 (snd (snd example_view)))"
    unfolding example_view_def example_arena_def Create_example snd_conv
    by (simp add: flush_step_def CreateViewPtr_def kernel_defs flag_defs boot_def arena0_def)
  have live: "0 < m_num_views (example_heap 0)"
    by (simp add: example_heap_def example_view_eval(2))
  from View_dtor_flush_then_unmap [OF v(1) run]
  have "m_num_views (fst (snd ?d) 0) = m_num_views (example_heap 0) - 1"
    using example_View_dtor(1) by (simp add: Let_def)
  then have count: "m_num_views (fst (snd ?d) 0) = 0"
    by (simp add: example_heap_def example_view_eval(2))
  from View_dtor_flush_then_unmap [OF sv(1) stale] example_stale_View_dtor(1)
  have panic: "fst ?s = Inl (Panic ''Failed to flush previously-created view'')"
    and world: "snd (snd ?s)
                  = snd (flush_step (Linux linux_kernel) 0x7f0000001000 4096
                           (snd (snd example_view)))"
    by (simp_all add: Let_def sv)
  have trace: "k_trace (snd (snd ?s))
                 = k_trace (snd (snd example_view)) @ [Sys_msync 0x7f0000001000 4096 0]"
    unfolding world by (rule example_stale_View_dtor(2))
  show ?thesis
    by (intro conjI v(1) v(2) fl live example_View_dtor count sv(1) sv(2)
          example_stale_View_dtor(1) panic trace)
qed

subsection \<open>Creating a view\<close>

text \<open>
  C1 (as stated, refuted). The arena of the example run has 4096 bytes. A view of 4096
  bytes at offset 4096 lies wholly outside it, and \<open>CreateViewPtr\<close> returns an address
  and counts a live view; a view of 1024 bytes at offset 2048 lies inside it, and
  \<open>CreateViewPtr\<close> returns null, the offset not being a multiple of the page size.
\<close>

theorem CreateViewPtr_bounds_counterexample:
  "k_objects (snd example_arena) ! 0 = 4096
   \<and> \<not> unat (4096 :: size_t) + unat (4096 :: size_t) \<le> k_objects (snd example_arena) ! 0
   \<and> fst (CreateViewPtr (Linux linux_kernel) 4096 4096 True False nullptr example_arena)
       = 0x7f0000000000
   \<and> m_num_views (fst (snd
         (CreateViewPtr (Linux linux_kernel) 4096 4096 True False nullptr example_arena))) = 1
   \<and> k_pages (snd (snd
         (CreateViewPtr (Linux linux_kernel) 4096 4096 True False nullptr example_arena)))
         34091302912 = Some (Shared 0, 1)
   \<and> unat (2048 :: size_t) + unat (1024 :: size_t) \<le> k_objects (snd example_arena) ! 0
   \<and> fst (CreateViewPtr (Linux linux_kernel) 2048 1024 True False nullptr example_arena)
       = nullptr"
proof -
  have size: "k_objects (snd example_arena) ! 0 = 4096"
    unfolding example_arena_def Create_example snd_conv by (simp add: boot_def)
  have outside: "\<not> unat (4096 :: size_t) + unat (4096 :: size_t)
                     \<le> k_objects (snd example_arena) ! 0"
    and inside: "unat (2048 :: size_t) + unat (1024 :: size_t)
                     \<le> k_objects (snd example_arena) ! 0"
    unfolding size by simp_all
  have granted: "fst (CreateViewPtr (Linux linux_kernel) 4096 4096 True False nullptr
                        example_arena) = 0x7f0000000000"
    unfolding example_arena_def Create_example snd_conv
    by (simp add: CreateViewPtr_def kernel_defs flag_defs boot_def arena0_def)
  have counted: "m_num_views (fst (snd (CreateViewPtr (Linux linux_kernel) 4096 4096 True False
                        nullptr example_arena))) = 1"
    unfolding example_arena_def Create_example snd_conv
    by (simp add: CreateViewPtr_def kernel_defs flag_defs boot_def arena0_def)
  have mapped: "k_pages (snd (snd (CreateViewPtr (Linux linux_kernel) 4096 4096 True False
                        nullptr example_arena))) 34091302912 = Some (Shared 0, 1)"
    unfolding example_arena_def Create_example snd_conv
    by (simp add: CreateViewPtr_def kernel_defs flag_defs boot_def arena0_def)
  have refused: "fst (CreateViewPtr (Linux linux_kernel) 2048 1024 True False nullptr
                        example_arena) = nullptr"
    unfolding example_arena_def Create_example snd_conv
    by (simp add: CreateViewPtr_def kernel_defs flag_defs boot_def arena0_def)
  show ?thesis
    by (intro conjI size outside granted counted mapped inside refused)
qed

text \<open>
  C1 (amended). \<open>CreateViewPtr\<close> compares nothing with the size of the arena. It makes
  the platform's mapping call and succeeds exactly when that call reports success: it
  then returns the address the platform gave and adds one to the counter. When the call
  is refused it returns null and leaves the arena as it was. The world afterwards is the
  one the single call left; on a build without a mapping call nothing happens at all.
\<close>

theorem CreateViewPtr_follows_mapping_call:
  assumes "CreateViewPtr plat offset sz writable executable fixed_address (a, w) = (bp, a', w')"
  shows "(fst (map_step plat a offset sz writable executable fixed_address w) = None
            \<longrightarrow> bp = nullptr \<and> a' = a)
       \<and> (\<forall>p. fst (map_step plat a offset sz writable executable fixed_address w) = Some p
            \<longrightarrow> bp = p \<and> a' = a\<lparr>m_num_views := m_num_views a + 1\<rparr>)
       \<and> (bp \<noteq> nullptr
            \<longrightarrow> fst (map_step plat a offset sz writable executable fixed_address w) = Some bp)
       \<and> w' = snd (map_step plat a offset sz writable executable fixed_address w)
       \<and> ((\<exists>api. plat = Android api) \<or> plat = Unsupported \<longrightarrow> bp = nullptr \<and> a' = a \<and> w' = w)"
proof -
  have "((\<exists>api. plat = Android api) \<or> plat = Unsupported) \<Longrightarrow>
          map_step plat a offset sz writable executable fixed_address w = (None, w)"
    by (auto simp: map_step_def)
  then show ?thesis
    using assms CreateViewPtr_unfold [of plat offset sz writable executable fixed_address a w]
    by (auto split: option.splits)
qed

theorem CreateViewPtr_follows_mapping_call_witness:
  "fst (map_step (Linux linux_kernel) (fst example_arena) 0 4096 True False nullptr
          (snd example_arena)) = Some 0x7f0000000000
   \<and> fst example_view = 0x7f0000000000
   \<and> m_num_views (fst example_arena) = 0
   \<and> m_num_views (fst (snd example_view)) = 1
   \<and> fst (map_step (Linux linux_kernel) (fst example_arena) 2048 1024 True False nullptr
            (snd example_arena)) = None
   \<and> fst (CreateViewPtr (Linux linux_kernel) 2048 1024 True False nullptr example_arena)
       = nullptr
   \<and> fst (snd (CreateViewPtr (Linux linux_kernel) 2048 1024 True False nullptr example_arena))
       = fst example_arena"
proof -
  let ?bad = "CreateViewPtr (Linux linux_kernel) 2048 1024 True False nullptr example_arena"
  have ok: "fst (map_step (Linux linux_kernel) (fst example_arena) 0 4096 True False nullptr
                   (snd example_arena)) = Some 0x7f0000000000"
    and bad: "fst (map_step (Linux linux_kernel) (fst example_arena) 2048 1024 True False nullptr
                   (snd example_arena)) = None"
    and zero: "m_num_views (fst example_arena) = 0"
    unfolding example_arena_def Create_example snd_conv
    by (simp_all add: map_step_def kernel_defs flag_defs boot_def arena0_def)
  have run_ok: "CreateViewPtr (Linux linux_kernel) 0 4096 True False nullptr
                  (fst example_arena, snd example_arena)
                = (fst example_view, fst (snd example_view), snd (snd example_view))"
    by (simp add: example_view_def)
  have run_bad: "CreateViewPtr (Linux linux_kernel) 2048 1024 True False nullptr
                  (fst example_arena, snd example_arena)
                = (fst ?bad, fst (snd ?bad), snd (snd ?bad))"
    by simp
  from CreateViewPtr_follows_mapping_call [OF run_ok] ok
  have counted: "fst (snd example_view) = (fst example_arena)\<lparr>m_num_views := m_num_views (fst example_arena) + 1\<rparr>"
    by simp
  from CreateViewPtr_follows_mapping_call [OF run_bad] bad
  have refused: "fst ?bad = nullptr" "fst (snd ?bad) = fst example_arena"
    by simp_all
  have one: "m_num_views (fst (snd example_view)) = 1"
    unfolding counted using zero by simp
  show ?thesis
    by (intro conjI ok example_view_eval(1) zero one bad refused)
qed

subsection \<open>Accounting of live views\<close>

lemma mod_pred:
  fixes x k :: nat
  assumes "0 < x mod k"
  shows "(x - 1) mod k = x mod k - 1"
proof (cases x)
  case 0
  with assms show ?thesis by simp
next
  case (Suc y)
  with assms have "Suc (y mod k) \<noteq> k"
    by (auto simp: mod_Suc split: if_splits)
  with Suc show ?thesis
    by (simp add: mod_Suc)
qed

lemma run_from_count:
  assumes "run_from plat cs (n, m) (a, w) = (Inr (N, M), a', w')"
    and "m \<le> n"
    and "unat (m_num_views a) = (n - m) mod 2 ^ 64"
  shows "M \<le> N \<and> unat (m_num_views a') = (N - M) mod 2 ^ 64"
  using assms
proof (induction cs arbitrary: n m a w)
  case Nil
  then show ?case by simp
next
  case (Cons c cs)
  show ?case
  proof (cases c)
    case (Call_CreateViewPtr offset sz writable executable fixed_address)
    let ?step = "map_step plat a offset sz writable executable fixed_address w"
    show ?thesis
    proof (cases "fst ?step")
      case None
      with Cons.prems Call_CreateViewPtr
      have "run_from plat cs (n, m) (a, snd ?step) = (Inr (N, M), a', w')"
        by (simp add: CreateViewPtr_unfold)
      from Cons.IH [OF this Cons.prems(2) Cons.prems(3)] show ?thesis .
    next
      case (Some bp)
      let ?a = "a\<lparr>m_num_views := m_num_views a + 1\<rparr>"
      from Some Cons.prems Call_CreateViewPtr
      have run: "run_from plat cs (Suc n, m) (?a, snd ?step) = (Inr (N, M), a', w')"
        by (simp add: CreateViewPtr_unfold)
      have "unat (m_num_views a + 1) = (unat (m_num_views a) + 1) mod 2 ^ 64"
        by (simp add: unat_word_ariths)
      also have "\<dots> = (Suc n - m) mod 2 ^ 64"
        using Cons.prems(2) Cons.prems(3) by (simp add: Suc_diff_le mod_Suc_eq)
      finally have "unat (m_num_views ?a) = (Suc n - m) mod 2 ^ 64"
        by simp
      moreover have "m \<le> Suc n"
        using Cons.prems(2) by simp
      ultimately show ?thesis
        using Cons.IH [OF run] by blast
    qed
  next
    case (Call_ReleaseViewPtr address sz)
    let ?step = "unmap_step plat address sz w"
    show ?thesis
    proof (cases "fst ?step")
      case False
      with Cons.prems Call_ReleaseViewPtr
      have "run_from plat cs (n, m) (a, snd ?step) = (Inr (N, M), a', w')"
        by (simp add: ReleaseViewPtr_unfold)
      from Cons.IH [OF this Cons.prems(2) Cons.prems(3)] show ?thesis .
    next
      case True
      show ?thesis
      proof (cases "0 < m_num_views a")
        case False
        with True Cons.prems Call_ReleaseViewPtr show ?thesis
          by (simp add: ReleaseViewPtr_unfold)
      next
        case pos: True
        let ?a = "a\<lparr>m_num_views := m_num_views a - 1\<rparr>"
        from pos True Cons.prems Call_ReleaseViewPtr
        have run: "run_from plat cs (n, Suc m) (?a, snd ?step) = (Inr (N, M), a', w')"
          by (simp add: ReleaseViewPtr_unfold)
        from word_pred_unat [OF pos]
        have live: "0 < (n - m) mod 2 ^ 64"
          and dec: "unat (m_num_views a - 1) = (n - m) mod 2 ^ 64 - 1"
          using Cons.prems(3) by simp_all
        from live have "Suc m \<le> n"
          by (cases "n - m") auto
        moreover have "unat (m_num_views ?a) = (n - Suc m) mod 2 ^ 64"
          using dec mod_pred [OF live] by simp
        ultimately show ?thesis
          using Cons.IH [OF run] by blast
      qed
    qed
  qed
qed

text \<open>
  C6. An arena starts with no live view. After any run of \<open>CreateViewPtr\<close> and
  \<open>ReleaseViewPtr\<close> calls that no assertion ended, in which the platform established
  \<open>N\<close> mappings and removed \<open>M\<close>, no more were removed than established and the counter
  is \<open>N - M\<close> (the counter is a 64-bit \<open>size_t\<close>, so \<open>N - M\<close> has to fit). Calls the
  platform refused are in the run and change nothing.
\<close>

theorem live_view_count:
  assumes "run_views plat cs (a, w) = (Inr (N, M), a', w')"
    and "m_num_views a = 0"
    and "N - M < 2 ^ 64"
  shows "M \<le> N \<and> unat (m_num_views a') = N - M"
  using run_from_count [of plat cs 0 0 a w N M a' w'] assms
  by (simp add: run_views_def)


theorem live_view_count_witness:
  "fst (run_views (Linux linux_kernel)
          [Call_CreateViewPtr 0 4096 True False nullptr,
           Call_CreateViewPtr 0 4096 True False nullptr,
           Call_CreateViewPtr 2048 1024 True False nullptr,
           Call_ReleaseViewPtr 0x7f0000000000 4096,
           Call_ReleaseViewPtr 0x7f0000000001 4096] example_arena) = Inr (2, 1)
   \<and> m_num_views (fst example_arena) = 0
   \<and> unat (m_num_views (fst (snd (run_views (Linux linux_kernel)
          [Call_CreateViewPtr 0 4096 True False nullptr,
           Call_CreateViewPtr 0 4096 True False nullptr,
           Call_CreateViewPtr 2048 1024 True False nullptr,
           Call_ReleaseViewPtr 0x7f0000000000 4096,
           Call_ReleaseViewPtr 0x7f0000000001 4096] example_arena)))) = 2 - 1"
proof -
  let ?run = "run_views (Linux linux_kernel)
          [Call_CreateViewPtr 0 4096 True False nullptr,
           Call_CreateViewPtr 0 4096 True False nullptr,
           Call_CreateViewPtr 2048 1024 True False nullptr,
           Call_ReleaseViewPtr 0x7f0000000000 4096,
           Call_ReleaseViewPtr 0x7f0000000001 4096] example_arena"
  have counts: "fst ?run = Inr (2, 1)"
    unfolding example_arena_def Create_example snd_conv run_views_def
    by (simp add: map_step_def CreateViewPtr_def ReleaseViewPtr_def kernel_defs flag_defs
          boot_def arena0_def)
  have zero: "m_num_views (fst example_arena) = 0"
    unfolding example_arena_def Create_example snd_conv by (simp add: arena0_def)
  have run: "run_views (Linux linux_kernel)
          [Call_CreateViewPtr 0 4096 True False nullptr,
           Call_CreateViewPtr 0 4096 True False nullptr,
           Call_CreateViewPtr 2048 1024 True False nullptr,
           Call_ReleaseViewPtr 0x7f0000000000 4096,
           Call_ReleaseViewPtr 0x7f0000000001 4096] (fst example_arena, snd example_arena)
        = (Inr (2, 1), fst (snd ?run), snd (snd ?run))"
    using counts by (simp add: prod_eq_iff)
  from live_view_count [OF run zero]
  have "unat (m_num_views (fst (snd ?run))) = 2 - 1"
    by simp
  then show ?thesis
    by (intro conjI counts zero)
qed

subsection \<open>Creating an arena\<close>

lemma Create_linux_unfold:
  "Create (Linux api) sz writable executable (a, w) =
     (let name = StdStringFromFormat sz (getpid api w);
          opened = shm_open api name
                     (O_CREAT OR O_EXCL OR (if writable then O_RDWR else O_RDONLY)) 384 w;
          unlinked = shm_unlink api name (snd opened);
          sized = ftruncate64 api (fst opened) (sint sz) (snd unlinked)
      in if fst opened < 0 then (False, a\<lparr>m_shmem_fd := fst opened\<rparr>, snd opened)
         else (0 \<le> fst sized, a\<lparr>m_shmem_fd := fst opened\<rparr>, snd sized))"
  by (simp add: Create_def Let_def case_prod_beta)

lemma Create_win32_unfold:
  "Create (Win32 api) sz writable executable (a, w) =
     (let made = CreateFileMappingA api INVALID_HANDLE_VALUE nullptr
                   (if writable
                    then (if executable then PAGE_EXECUTE_READWRITE else PAGE_READWRITE)
                    else PAGE_READONLY)
                   (Truncate32 (drop_bit 32 sz)) (Truncate32 sz)
                   (StdStringFromFormat sz (GetCurrentProcessId api w)) w
      in (fst made \<noteq> nullptr, a\<lparr>m_file_handle := fst made\<rparr>, snd made))"
  by (simp add: Create_def Let_def case_prod_beta)

text \<open>
  C8. When the platform refuses the allocation, \<open>Create\<close> returns false: on Windows when
  \<open>CreateFileMappingA\<close> returns null, on Linux when \<open>shm_open\<close> or \<open>ftruncate64\<close>
  returns a negative value. \<open>Create\<close> has no other result than true or false; nothing in
  it panics, and it calls the platform once, without a retry.
\<close>

theorem Create_fails_when_refused:
  assumes "allocation_refused plat sz writable executable w"
  shows "fst (Create plat sz writable executable (a, w)) = False"
proof (cases plat)
  case (Win32 api)
  with assms show ?thesis
    by (simp add: Create_win32_unfold allocation_refused_def Let_def)
next
  case (Linux api)
  with assms show ?thesis
    by (auto simp: Create_linux_unfold allocation_refused_def Let_def)
next
  case (Android api)
  then show ?thesis by (simp add: Create_def)
next
  case Unsupported
  then show ?thesis by (simp add: Create_def)
qed

theorem Create_fails_when_refused_witness:
  "allocation_refused (Linux linux_kernel) 4096 True False boot_name_taken
   \<and> fst (Create (Linux linux_kernel) 4096 True False (arena0, boot_name_taken)) = False
   \<and> allocation_refused (Linux linux_kernel) 4096 True False boot_no_descriptors
   \<and> fst (Create (Linux linux_kernel) 4096 True False (arena0, boot_no_descriptors)) = False
   \<and> allocation_refused (Linux linux_kernel) 0x8000000000000000 True False boot
   \<and> fst (Create (Linux linux_kernel) 0x8000000000000000 True False (arena0, boot)) = False"
proof -
  have taken: "allocation_refused (Linux linux_kernel) 4096 True False boot_name_taken"
    by (simp add: allocation_refused_def kernel_defs flag_defs StdStringFromFormat_example
          boot_name_taken_def boot_def)
  have exhausted: "allocation_refused (Linux linux_kernel) 4096 True False boot_no_descriptors"
    by (simp add: allocation_refused_def kernel_defs flag_defs StdStringFromFormat_example
          boot_no_descriptors_def boot_def)
  have invalid: "allocation_refused (Linux linux_kernel) 0x8000000000000000 True False boot"
    by (simp add: allocation_refused_def kernel_defs flag_defs StdStringFromFormat_def
          decimal.simps boot_def)
  show ?thesis
    by (intro conjI taken exhausted invalid Create_fails_when_refused [OF taken]
          Create_fails_when_refused [OF exhausted] Create_fails_when_refused [OF invalid])
qed

text \<open>
  C7 (as stated, refuted). On the Windows build, with process 1234 and a
  \<open>CreateFileMappingA\<close> that returns the handle \<open>0x1a4\<close>, creating an arena of 4096 bytes
  succeeds after one call: the call that creates the mapping object under the name
  \<open>common_memory_arena_4096_1234\<close>. No call follows it, so \<open>Create\<close> returns with the
  object still carrying its name.
\<close>

theorem Create_win32_name_counterexample:
  "Create (Win32 (win32_recorder 1234 (\<lambda>c. 0x1a4))) 4096 True False (arena0, [])
     = (True, arena0\<lparr>m_file_handle := 0x1a4\<rparr>,
        [Call_CreateFileMappingA INVALID_HANDLE_VALUE nullptr PAGE_READWRITE 0 4096
           ''common_memory_arena_4096_1234''])"
  unfolding Create_win32_unfold Let_def
  by (simp add: win32_recorder_def StdStringFromFormat_example Truncate32_def nullptr_def)

text \<open>
  C7 (amended). On the Linux build, a successful \<open>Create\<close> has opened the object under
  the name \<open>common_memory_arena_<size>_<pid>\<close>, both numbers in decimal, and has called
  \<open>shm_unlink\<close> on that name as the very next call, before sizing the object; it does
  not look at what \<open>shm_unlink\<close> returned.
\<close>

theorem Create_linux_unlinks_name:
  assumes "fst (Create (Linux api) sz writable executable (a, w))"
  shows "let name = ''common_memory_arena_'' @ decimal (unat sz) @ ''_''
                      @ decimal (unat (getpid api w));
             opened = shm_open api name
                        (O_CREAT OR O_EXCL OR (if writable then O_RDWR else O_RDONLY)) 384 w;
             unlinked = shm_unlink api name (snd opened);
             sized = ftruncate64 api (fst opened) (sint sz) (snd unlinked)
         in 0 \<le> fst opened \<and> 0 \<le> fst sized
          \<and> snd (Create (Linux api) sz writable executable (a, w))
              = (a\<lparr>m_shmem_fd := fst opened\<rparr>, snd sized)"
proof -
  define name where "name = StdStringFromFormat sz (getpid api w)"
  define opened where "opened = shm_open api name
                        (O_CREAT OR O_EXCL OR (if writable then O_RDWR else O_RDONLY)) 384 w"
  define sized where "sized = ftruncate64 api (fst opened) (sint sz)
                        (snd (shm_unlink api name (snd opened)))"
  have run: "Create (Linux api) sz writable executable (a, w) =
     (if fst opened < 0 then (False, a\<lparr>m_shmem_fd := fst opened\<rparr>, snd opened)
      else (0 \<le> fst sized, a\<lparr>m_shmem_fd := fst opened\<rparr>, snd sized))"
    unfolding Create_linux_unfold Let_def name_def opened_def sized_def ..
  from assms have "0 \<le> fst opened \<and> 0 \<le> fst sized"
    unfolding run by (simp split: if_splits)
  then have "0 \<le> fst opened \<and> 0 \<le> fst sized
      \<and> snd (Create (Linux api) sz writable executable (a, w))
              = (a\<lparr>m_shmem_fd := fst opened\<rparr>, snd sized)"
    unfolding run by simp
  then show ?thesis
    unfolding Let_def sized_def opened_def name_def StdStringFromFormat_def .
qed

theorem Create_linux_unlinks_name_witness:
  "fst (Create (Linux linux_kernel) 4096 True False (arena0, boot))
   \<and> ''common_memory_arena_'' @ decimal (unat (4096 :: size_t)) @ ''_''
        @ decimal (unat (getpid linux_kernel boot)) = ''common_memory_arena_4096_1234''
   \<and> 0 \<le> fst (shm_open linux_kernel ''common_memory_arena_4096_1234'' 194 384 boot)
   \<and> k_trace (snd (snd (Create (Linux linux_kernel) 4096 True False (arena0, boot))))
       = [Sys_shm_open ''common_memory_arena_4096_1234'' 194 384,
          Sys_shm_unlink ''common_memory_arena_4096_1234'',
          Sys_ftruncate64 3 4096]
   \<and> k_names (snd (snd (Create (Linux linux_kernel) 4096 True False (arena0, boot)))) = []"
proof -
  have ok: "fst (Create (Linux linux_kernel) 4096 True False (arena0, boot))"
    unfolding Create_example by simp
  have name: "''common_memory_arena_'' @ decimal (unat (4096 :: size_t)) @ ''_''
        @ decimal (unat (getpid linux_kernel boot)) = ''common_memory_arena_4096_1234''"
    by (simp add: linux_kernel_def boot_def decimal.simps)
  have flags: "O_CREAT OR O_EXCL OR (if True then O_RDWR else O_RDONLY) = 194"
    by (simp add: flag_defs)
  have trace: "k_trace (snd (snd (Create (Linux linux_kernel) 4096 True False (arena0, boot))))
       = [Sys_shm_open ''common_memory_arena_4096_1234'' 194 384,
          Sys_shm_unlink ''common_memory_arena_4096_1234'',
          Sys_ftruncate64 3 4096]"
    and names: "k_names (snd (snd (Create (Linux linux_kernel) 4096 True False (arena0, boot)))) = []"
    unfolding Create_example by simp_all
  from Create_linux_unlinks_name [OF ok]
  have opened: "0 \<le> fst (shm_open linux_kernel ''common_memory_arena_4096_1234'' 194 384 boot)"
    unfolding Let_def name flags by (rule conjunct1)
  show ?thesis
    by (intro conjI ok name opened trace names)
qed

subsection \<open>Probing for a base address\<close>

lemma FindBaseAddressForMapping_linux_failure:
  assumes "fst (mmap api nullptr sz PROT_NONE (MAP_ANON OR MAP_PRIVATE) (- 1) 0 w) = MAP_FAILED"
  shows "fst (FindBaseAddressForMapping (Linux api) sz w) = MAP_FAILED"
  using assms
  by (simp add: FindBaseAddressForMapping_def Let_def case_prod_beta MAP_FAILED_def nullptr_def)

lemma FindBaseAddressForMapping_win32_failure:
  assumes "fst (VirtualAlloc api nullptr sz MEM_RESERVE PAGE_READWRITE w) = nullptr"
  shows "fst (FindBaseAddressForMapping (Win32 api) sz w) = nullptr"
  using assms
  by (simp add: FindBaseAddressForMapping_def Let_def case_prod_beta)

text \<open>
  C3. On the Linux build \<open>mmap\<close> reports failure by \<open>MAP_FAILED\<close>, and the code tests
  the result against the null pointer. Asked for \<open>2^48\<close> bytes, more than the address
  space holds, the kernel returns \<open>MAP_FAILED\<close>; \<open>FindBaseAddressForMapping\<close> then calls
  \<open>munmap\<close> on that value and returns it, \<open>0xffffffffffffffff\<close>, as the base address.
\<close>

theorem FindBaseAddressForMapping_returns_MAP_FAILED:
  "FindBaseAddressForMapping (Linux linux_kernel) 0x1000000000000 boot
     = (0xffffffffffffffff,
        boot\<lparr>k_trace := [Sys_mmap 0 0x1000000000000 0 34 (- 1) 0,
                           Sys_munmap 0xffffffffffffffff 0x1000000000000]\<rparr>)
   \<and> MAP_FAILED = 0xffffffffffffffff
   \<and> MAP_FAILED \<noteq> nullptr"
proof -
  have "FindBaseAddressForMapping (Linux linux_kernel) 0x1000000000000 boot
     = (0xffffffffffffffff,
        boot\<lparr>k_trace := [Sys_mmap 0 0x1000000000000 0 34 (- 1) 0,
                           Sys_munmap 0xffffffffffffffff 0x1000000000000]\<rparr>)"
    by (simp add: FindBaseAddressForMapping_def kernel_defs flag_defs boot_def)
  moreover have "MAP_FAILED = 0xffffffffffffffff" "MAP_FAILED \<noteq> nullptr"
    by (simp_all add: flag_defs)
  ultimately show ?thesis
    by blast
qed

subsection \<open>Destroying an arena\<close>

lemma MemoryArena_dtor_linux:
  "MemoryArena_dtor (Linux api) a w =
     (if 0 < m_shmem_fd a then snd (close api (m_shmem_fd a) w) else w)"
  by (simp add: MemoryArena_dtor_def)

lemma MemoryArena_dtor_example:
  "k_fds (MemoryArena_dtor (Linux linux_kernel) (fst example_arena) (snd example_arena))
     = [(0, Terminal), (1, Terminal), (2, Terminal)]"
  unfolding example_arena_def Create_example snd_conv fst_conv
  by (simp add: MemoryArena_dtor_def kernel_defs boot_def arena0_def)

text \<open>
  C9. \<open>Create\<close> takes every descriptor that is not negative, 0 included, as a success;
  the destructor closes the descriptor only when it is greater than 0. In a process
  whose standard input is closed, \<open>shm_open\<close> returns descriptor 0: \<open>Create\<close> succeeds,
  and the destructor makes no call, so the descriptor and the object behind it stay open.
\<close>

theorem MemoryArena_dtor_leaks_descriptor_0:
  "Create (Linux linux_kernel) 4096 True False (arena0, boot_stdin_closed)
     = (True, arena0\<lparr>m_shmem_fd := 0\<rparr>,
        boot\<lparr>k_objects := [4096],
             k_fds := [(0, ShmFile 0 True), (1, Terminal), (2, Terminal)],
             k_trace := [Sys_shm_open ''common_memory_arena_4096_1234'' 194 384,
                         Sys_shm_unlink ''common_memory_arena_4096_1234'',
                         Sys_ftruncate64 0 4096]\<rparr>)
   \<and> MemoryArena_dtor (Linux linux_kernel) (arena0\<lparr>m_shmem_fd := 0\<rparr>)
        (boot\<lparr>k_objects := [4096],
              k_fds := [(0, ShmFile 0 True), (1, Terminal), (2, Terminal)],
              k_trace := [Sys_shm_open ''common_memory_arena_4096_1234'' 194 384,
                          Sys_shm_unlink ''common_memory_arena_4096_1234'',
                          Sys_ftruncate64 0 4096]\<rparr>)
       = boot\<lparr>k_objects := [4096],
              k_fds := [(0, ShmFile 0 True), (1, Terminal), (2, Terminal)],
              k_trace := [Sys_shm_open ''common_memory_arena_4096_1234'' 194 384,
                          Sys_shm_unlink ''common_memory_arena_4096_1234'',
                          Sys_ftruncate64 0 4096]\<rparr>"
proof -
  have "Create (Linux linux_kernel) 4096 True False (arena0, boot_stdin_closed)
     = (True, arena0\<lparr>m_shmem_fd := 0\<rparr>,
        boot\<lparr>k_objects := [4096],
             k_fds := [(0, ShmFile 0 True), (1, Terminal), (2, Terminal)],
             k_trace := [Sys_shm_open ''common_memory_arena_4096_1234'' 194 384,
                         Sys_shm_unlink ''common_memory_arena_4096_1234'',
                         Sys_ftruncate64 0 4096]\<rparr>)"
    by (simp add: Create_def kernel_defs flag_defs StdStringFromFormat_example
          boot_stdin_closed_def boot_def arena0_def)
  moreover have "MemoryArena_dtor (Linux linux_kernel) (arena0\<lparr>m_shmem_fd := 0\<rparr>) k = k" for k
    by (simp add: MemoryArena_dtor_def)
  ultimately show ?thesis
    by (intro conjI)
qed

subsection \<open>Moving a view\<close>

lemma View_move_m_writable:
  "m_writable (fst (View_move uninit view)) = uninit"
  by (simp add: View_move_def)

lemma View_move_never_preserves:
  "\<exists>view. m_writable (fst (View_move uninit view)) \<noteq> m_writable view"
  by (rule exI [of _ "View_ctor None nullptr 0 0 (\<not> uninit)"])
     (simp add: View_move_def View_ctor_def)

lemma View_move_source_inert:
  "View_dtor plat (snd (View_move uninit view)) (h, w) = (Inr (), h, w)"
  by (simp add: View_move_def View_dtor_def)

lemma View_move_keeps_release:
  assumes "uninit = m_writable view"
  shows "View_dtor plat (fst (View_move uninit view)) s = View_dtor plat view s"
proof -
  have "fst (View_move (m_writable view) view) = view"
    by (simp add: View_move_def)
  with assms show ?thesis
    by simp
qed

lemma CreateView_m_writable:
  assumes "fst (CreateView plat uninit this offset sz writable executable fixed_address s) = Some v"
  shows "m_writable v = uninit"
  using assms
  by (auto simp: CreateView_def View_move_def Let_def case_prod_beta split: if_splits)

text \<open>
  C4. The move constructor copies four members and leaves \<open>m_writable\<close> out. Where the
  new object's \<open>m_writable\<close> then reads false, moving the writable view of the example
  run gives a view whose release unmaps without flushing, while the release of the
  original flushes first. The source's release after the move does nothing.
\<close>

theorem View_move_drops_flush:
  "m_writable example_View
   \<and> \<not> m_writable (fst (View_move False example_View))
   \<and> k_trace (snd (snd (View_dtor (Linux linux_kernel) example_View
                          (example_heap, snd (snd example_view)))))
       = k_trace (snd (snd example_view))
           @ [Sys_msync 0x7f0000000000 4096 0, Sys_munmap 0x7f0000000000 4096]
   \<and> k_trace (snd (snd (View_dtor (Linux linux_kernel) (fst (View_move False example_View))
                          (example_heap, snd (snd example_view)))))
       = k_trace (snd (snd example_view)) @ [Sys_munmap 0x7f0000000000 4096]
   \<and> View_dtor (Linux linux_kernel) (snd (View_move False example_View))
         (example_heap, snd (snd example_view))
       = (Inr (), example_heap, snd (snd example_view))"
proof -
  have original: "m_writable example_View"
    by (simp add: example_View_def View_ctor_def)
  have moved: "\<not> m_writable (fst (View_move False example_View))"
    by (simp add: View_move_def)
  have released: "k_trace (snd (snd (View_dtor (Linux linux_kernel)
                     (fst (View_move False example_View))
                     (example_heap, snd (snd example_view)))))
       = k_trace (snd (snd example_view)) @ [Sys_munmap 0x7f0000000000 4096]"
    unfolding example_View_def example_heap_def example_view_def example_arena_def
      Create_example snd_conv
    by (simp add: View_move_def View_dtor_def View_ctor_def ReleaseViewPtr_def
          CreateViewPtr_def kernel_defs flag_defs boot_def arena0_def)
  show ?thesis
    by (intro conjI original moved example_View_dtor(2) released View_move_source_inert)
qed

subsection \<open>A view at a fixed address\<close>

lemma example_occupied_eval:
  "k_pages (snd example_occupied) 34091302912 = Some (Anonymous, 0)"
  "fst (CreateViewPtr (Linux linux_kernel) 0 4096 True False 0x7f0000000000 example_occupied)
     = 0x7f0000000000"
  "m_num_views (fst (snd (CreateViewPtr (Linux linux_kernel) 0 4096 True False
                             0x7f0000000000 example_occupied))) = 1"
  "k_pages (snd (snd (CreateViewPtr (Linux linux_kernel) 0 4096 True False
                        0x7f0000000000 example_occupied))) 34091302912
     = Some (Shared 0, 0)"
  "k_trace (snd (snd (CreateViewPtr (Linux linux_kernel) 0 4096 True False
                        0x7f0000000000 example_occupied)))
     = k_trace (snd example_occupied) @ [Sys_mmap 0x7f0000000000 4096 3 17 3 0]"
  unfolding example_occupied_def example_arena_def Create_example snd_conv fst_conv
  by (simp_all add: CreateViewPtr_def kernel_defs flag_defs boot_def arena0_def)

text \<open>
  C2 (as stated, refuted). The process of the example run holds a page of anonymous
  memory of its own at \<open>0x7f0000000000\<close>. A view of the arena requested at that fixed
  address does not fail: \<open>CreateViewPtr\<close> returns the address and counts a live view,
  and the page now shows the arena's object; the anonymous page is gone.
\<close>

theorem CreateViewPtr_fixed_counterexample:
  "k_pages (snd example_occupied) 34091302912 = Some (Anonymous, 0)
   \<and> fst (CreateViewPtr (Linux linux_kernel) 0 4096 True False 0x7f0000000000 example_occupied)
       = 0x7f0000000000
   \<and> m_num_views (fst (snd (CreateViewPtr (Linux linux_kernel) 0 4096 True False
                               0x7f0000000000 example_occupied))) = 1
   \<and> k_pages (snd (snd (CreateViewPtr (Linux linux_kernel) 0 4096 True False
                          0x7f0000000000 example_occupied))) 34091302912
       = Some (Shared 0, 0)"
  by (intro conjI example_occupied_eval(1) example_occupied_eval(2) example_occupied_eval(3)
        example_occupied_eval(4))

text \<open>
  C2 (amended). A call with a fixed address makes one platform call and no check of its
  own whether the address is occupied: on Linux \<open>mmap64\<close> with the address and the flags
  \<open>MAP_SHARED | MAP_FIXED\<close>, on Windows \<open>MapViewOfFileEx\<close> with the address. When that
  call fails, \<open>CreateViewPtr\<close> fails cleanly: it returns null, the arena and its counter
  are as before, and the world is the one the failed call left, nothing having been
  mapped or undone by the code. When the call succeeds, \<open>CreateViewPtr\<close> returns the
  address the platform gave and counts one more view.
\<close>

theorem CreateViewPtr_fixed_address_call:
  assumes "fixed_address \<noteq> nullptr"
    and "CreateViewPtr plat offset sz writable executable fixed_address (a, w) = (bp, a', w')"
  shows "(\<forall>api. plat = Linux api \<longrightarrow>
            (let r = mmap64 api fixed_address sz
                       (PROT_READ OR (if writable then PROT_WRITE else 0)
                          OR (if executable then PROT_EXEC else 0))
                       (MAP_SHARED OR MAP_FIXED) (m_shmem_fd a) (sint offset) w
             in w' = snd r
              \<and> (fst r = MAP_FAILED \<longrightarrow> bp = nullptr \<and> a' = a)
              \<and> (fst r \<noteq> MAP_FAILED \<longrightarrow>
                   bp = fst r \<and> a' = a\<lparr>m_num_views := m_num_views a + 1\<rparr>)))
       \<and> (\<forall>api. plat = Win32 api \<longrightarrow>
            (let r = MapViewOfFileEx api (m_file_handle a)
                       (FILE_MAP_READ OR (if writable then FILE_MAP_WRITE else 0)
                          OR (if executable then FILE_MAP_EXECUTE else 0))
                       (Truncate32 (drop_bit 32 offset)) (Truncate32 offset) sz fixed_address w
             in w' = snd r
              \<and> (fst r = nullptr \<longrightarrow> bp = nullptr \<and> a' = a)
              \<and> (fst r \<noteq> nullptr \<longrightarrow>
                   bp = fst r \<and> a' = a\<lparr>m_num_views := m_num_views a + 1\<rparr>)))"
  using assms
  by (cases plat) (auto simp: CreateViewPtr_def Let_def case_prod_beta split: if_splits)

theorem CreateViewPtr_fixed_address_call_witness:
  "(0x7f0000000000 :: addr) \<noteq> nullptr
   \<and> k_pages (snd example_occupied) 34091302912 = Some (Anonymous, 0)
   \<and> fst (mmap64 linux_kernel 0x7f0000000000 4096 3 17 3 0 (snd example_occupied))
       = 0x7f0000000000
   \<and> (0x7f0000000000 :: addr) \<noteq> MAP_FAILED
   \<and> fst (CreateViewPtr (Linux linux_kernel) 0 4096 True False 0x7f0000000000 example_occupied)
       = 0x7f0000000000
   \<and> m_num_views (fst (snd (CreateViewPtr (Linux linux_kernel) 0 4096 True False
                               0x7f0000000000 example_occupied)))
       = m_num_views (fst example_occupied) + 1
   \<and> k_trace (snd (snd (CreateViewPtr (Linux linux_kernel) 0 4096 True False
                          0x7f0000000000 example_occupied)))
       = k_trace (snd example_occupied) @ [Sys_mmap 0x7f0000000000 4096 3 17 3 0]"
proof -
  let ?r = "CreateViewPtr (Linux linux_kernel) 0 4096 True False 0x7f0000000000
              example_occupied"
  have fixed: "(0x7f0000000000 :: addr) \<noteq> nullptr"
    and ok: "(0x7f0000000000 :: addr) \<noteq> MAP_FAILED"
    by (simp_all add: nullptr_def MAP_FAILED_def)
  have fd: "m_shmem_fd (fst example_occupied) = 3"
    unfolding example_occupied_def example_arena_def Create_example snd_conv fst_conv
    by simp
  have call: "fst (mmap64 linux_kernel 0x7f0000000000 4096 3 17 3 0 (snd example_occupied))
                = 0x7f0000000000"
    unfolding example_occupied_def example_arena_def Create_example snd_conv fst_conv
    by (simp add: kernel_defs flag_defs boot_def)
  have args: "PROT_READ OR (if True then PROT_WRITE else 0) OR (if False then PROT_EXEC else 0)
                = 3"
    "MAP_SHARED OR MAP_FIXED = 17" "sint (0 :: size_t) = 0"
    by (simp_all add: flag_defs)
  have run: "CreateViewPtr (Linux linux_kernel) 0 4096 True False 0x7f0000000000
               (fst example_occupied, snd example_occupied)
             = (fst ?r, fst (snd ?r), snd (snd ?r))"
    by simp
  from CreateViewPtr_fixed_address_call [OF fixed run]
  have "fst ?r = 0x7f0000000000
        \<and> fst (snd ?r) = (fst example_occupied)
                           \<lparr>m_num_views := m_num_views (fst example_occupied) + 1\<rparr>"
    unfolding Let_def args fd using call ok by simp
  then have granted: "fst ?r = 0x7f0000000000"
    and counted: "m_num_views (fst (snd ?r)) = m_num_views (fst example_occupied) + 1"
    by simp_all
  show ?thesis
    by (intro conjI fixed example_occupied_eval(1) call ok granted counted
          example_occupied_eval(5))
qed

end
